theory Spec2Isabelle
  imports Complex_Main
begin

section \<open>Data model\<close>

text \<open>
  The component lives in \<^verbatim>\<open>src/index.tsx\<close>. The file holds two revisions of the
  component; the functions modelled here are those of the later revision (the one whose
  mapped points carry an \<^verbatim>\<open>id\<close>); the earlier revision has the same arithmetic.

  A JavaScript \<^verbatim>\<open>Date\<close> is represented by its epoch time in milliseconds, an integer;
  invalid dates are outside the model. The helpers imported from the date library are
  modelled by what they compute on epoch values.
\<close>

type_synonym date = int

text \<open>
  A JavaScript number that results from a division: a finite value (kept exact, as a
  rational), one of the two infinities, or \<^verbatim>\<open>NaN\<close>. Rounding of finite values is not
  modelled: where the code rounds a difference, a quotient or a product to the nearest
  double, the model keeps the exact value. Rounding keeps the order of two values but may
  make two different values equal.
\<close>

datatype jsnum = Fin rat | PosInf | NegInf | NaN

text \<open>\<^verbatim>\<open>a / b\<close> on two finite numbers; a zero divisor gives an infinity or \<^verbatim>\<open>NaN\<close>.\<close>

definition js_div :: "rat \<Rightarrow> rat \<Rightarrow> jsnum" where
  "js_div a b =
     (if b = 0 then (if a = 0 then NaN else if 0 < a then PosInf else NegInf)
      else Fin (a / b))"

text \<open>\<^verbatim>\<open>x * c\<close> for a finite right operand \<open>c\<close>.\<close>

fun js_times :: "jsnum \<Rightarrow> rat \<Rightarrow> jsnum" where
  "js_times (Fin a) c = Fin (a * c)"
| "js_times PosInf c = (if c = 0 then NaN else if 0 < c then PosInf else NegInf)"
| "js_times NegInf c = (if c = 0 then NaN else if 0 < c then NegInf else PosInf)"
| "js_times NaN c = NaN"

text \<open>The comparisons \<^verbatim>\<open><\<close> and \<^verbatim>\<open><=\<close> of JavaScript numbers: false whenever an operand is \<^verbatim>\<open>NaN\<close>.\<close>

fun js_less :: "jsnum \<Rightarrow> jsnum \<Rightarrow> bool" where
  "js_less NaN y = False"
| "js_less x NaN = False"
| "js_less (Fin a) (Fin b) = (a < b)"
| "js_less (Fin a) PosInf = True"
| "js_less NegInf (Fin b) = True"
| "js_less NegInf PosInf = True"
| "js_less x y = False"

fun js_le :: "jsnum \<Rightarrow> jsnum \<Rightarrow> bool" where
  "js_le NaN y = False"
| "js_le x NaN = False"
| "js_le (Fin a) (Fin b) = (a \<le> b)"
| "js_le x PosInf = True"
| "js_le NegInf y = True"
| "js_le x y = False"

text \<open>\<^verbatim>\<open>type Interval = { id: string; start: Date; end: Date }\<close>\<close>

record interval =
  ival_id :: string
  ival_start :: date
  ival_end :: date

text \<open>The object returned by the coordinate mapper: \<^verbatim>\<open>{ id, percent, value }\<close>.\<close>

record mapped_point =
  pt_id :: string
  pt_percent :: jsnum
  pt_value :: int

text \<open>The object built for one track: \<^verbatim>\<open>{ id, source, target }\<close>.\<close>

record mapped_interval =
  mi_id :: string
  source :: mapped_point
  target :: mapped_point

text \<open>\<^verbatim>\<open>type UpdateCallbackData = { error: boolean; time: Date[] }\<close>\<close>

record update_callback_data =
  error :: bool
  time :: "date list"

section \<open>Library helpers\<close>

text \<open>
  How a template string renders a whole number: its decimal digits, with a leading minus
  sign when it is negative.
\<close>

definition digit_char :: "nat \<Rightarrow> char" where
  "digit_char k = ''0123456789'' ! k"

fun decimal_digits :: "nat \<Rightarrow> string" where
  "decimal_digits n =
     (if n div 10 = 0 then [digit_char n]
      else decimal_digits (n div 10) @ [digit_char (n mod 10)])"

definition number_to_string :: "int \<Rightarrow> string" where
  "number_to_string v =
     (if 0 \<le> v then decimal_digits (nat v) else CHR ''-'' # decimal_digits (nat (- v)))"

text \<open>\<^verbatim>\<open>differenceInMilliseconds(a, b)\<close>: the epoch time of \<open>a\<close> minus that of \<open>b\<close>.\<close>

definition differenceInMilliseconds :: "date \<Rightarrow> date \<Rightarrow> int" where
  "differenceInMilliseconds a b = a - b"

text \<open>\<^verbatim>\<open>isBefore(a, b)\<close> and \<^verbatim>\<open>isAfter(a, b)\<close>: strict comparison of the epoch times.\<close>

definition isBefore :: "date \<Rightarrow> date \<Rightarrow> bool" where
  "isBefore a b = (a < b)"

definition isAfter :: "date \<Rightarrow> date \<Rightarrow> bool" where
  "isAfter a b = (a > b)"

text \<open>\<^verbatim>\<open>addMinutes(d, n)\<close>: the date \<open>n\<close> times 60000 milliseconds later.\<close>

definition addMinutes :: "date \<Rightarrow> int \<Rightarrow> date" where
  "addMinutes d n = d + n * 60000"

text \<open>\<^verbatim>\<open>Number(format(d, "T"))\<close>: the epoch time in milliseconds as a number.\<close>

definition format_T :: "date \<Rightarrow> int" where
  "format_T d = d"

text \<open>\<^verbatim>\<open>new Date(t)\<close> for a numeric epoch value \<open>t\<close>.\<close>

definition new_Date_of :: "int \<Rightarrow> date" where
  "new_Date_of t = t"

section \<open>The overlap check\<close>

text \<open>
  \<^verbatim>\<open>checkIsSelectedIntervalNotValid([start, end], source, target)\<close>: two early returns,
  then the disjunction of the two named conditions.
\<close>

definition checkIsSelectedIntervalNotValid ::
  "int \<times> int \<Rightarrow> mapped_point \<Rightarrow> mapped_point \<Rightarrow> bool" where
  "checkIsSelectedIntervalNotValid sel src tgt =
     (let start = fst sel; end' = snd sel;
          startInterval = pt_value src;
          endInterval = pt_value tgt
      in if (startInterval > start \<and> endInterval \<le> end') \<or>
            (startInterval \<ge> start \<and> endInterval < end') then True
         else if start \<ge> startInterval \<and> end' \<le> endInterval then True
         else
           (let isStartInBlockedInterval =
                  (start > startInterval \<and> start < endInterval \<and> end' \<ge> endInterval);
                isEndInBlockedInterval =
                  (end' < endInterval \<and> end' > startInterval \<and> start \<le> startInterval)
            in isStartInBlockedInterval \<or> isEndInBlockedInterval))"

text \<open>
  The four conditions of the written description of the validator, in its words: with
  \<open>blockedStart\<close> and \<open>blockedEnd\<close> the values of the blocked interval's mapped end points,
  the selection is invalid when any of them holds.
\<close>

definition spec_condition_1 :: "int \<Rightarrow> int \<Rightarrow> int \<Rightarrow> int \<Rightarrow> bool" where
  "spec_condition_1 start end' blockedStart blockedEnd =
     ((blockedStart > start \<and> blockedEnd \<le> end') \<or> (blockedStart \<ge> start \<and> blockedEnd < end'))"

definition spec_condition_2 :: "int \<Rightarrow> int \<Rightarrow> int \<Rightarrow> int \<Rightarrow> bool" where
  "spec_condition_2 start end' blockedStart blockedEnd =
     (start \<ge> blockedStart \<and> end' \<le> blockedEnd)"

definition spec_condition_3 :: "int \<Rightarrow> int \<Rightarrow> int \<Rightarrow> int \<Rightarrow> bool" where
  "spec_condition_3 start end' blockedStart blockedEnd =
     (start > blockedStart \<and> start < blockedEnd \<and> end' \<ge> blockedEnd)"

definition spec_condition_4 :: "int \<Rightarrow> int \<Rightarrow> int \<Rightarrow> int \<Rightarrow> bool" where
  "spec_condition_4 start end' blockedStart blockedEnd =
     (end' < blockedEnd \<and> end' > blockedStart \<and> start \<le> blockedStart)"

section \<open>The coordinate mapper\<close>

text \<open>
  \<^verbatim>\<open>getTimelineConfig(timelineStart, timelineLength)(date, idPrefix)\<close>. There is no
  check of \<open>timelineLength\<close> and nothing is thrown: the division is carried out whatever the
  length is.
\<close>

definition getTimelineConfig :: "date \<Rightarrow> int \<Rightarrow> date \<Rightarrow> string \<Rightarrow> mapped_point" where
  "getTimelineConfig timelineStart timelineLength d idPrefix =
     (let percent =
            js_times (js_div (of_int (differenceInMilliseconds d timelineStart))
                             (of_int timelineLength)) 100;
          v = format_T d;
          ident = idPrefix @ ''-'' @ number_to_string v
      in \<lparr>pt_id = ident, pt_percent = percent, pt_value = v\<rparr>)"

text \<open>
  The written description of the mapper, in its words: the length of the window is
  \<open>window.end - window.start\<close>; the mapping fails with \<open>DegenerateWindowError\<close> if the length
  is not positive, and otherwise gives \<open>percent = (point - window.start) / length * 100\<close>,
  \<open>value\<close> the epoch milliseconds of the point and \<open>id = idPrefix + "-" + value\<close>.
\<close>

datatype config_error = DegenerateWindowError

definition spec_map :: "date \<times> date \<Rightarrow> date \<Rightarrow> string \<Rightarrow> config_error + mapped_point" where
  "spec_map window point idPrefix =
     (let len = snd window - fst window
      in if len \<le> 0 then Inl DegenerateWindowError
         else Inr \<lparr>pt_id = idPrefix @ ''-'' @ number_to_string point,
                   pt_percent = Fin (of_int (point - fst window) / of_int len * 100),
                   pt_value = point\<rparr>)"

section \<open>Blocked intervals\<close>

text \<open>
  The function mapped over \<^verbatim>\<open>blockedDates\<close>: the start is replaced by the window's start
  when it lies before it, the end by the window's end when it lies after it, and both are
  sent through the mapper.
\<close>

definition formattedBlockedDate :: "date \<Rightarrow> date \<Rightarrow> nat \<Rightarrow> interval \<Rightarrow> mapped_interval" where
  "formattedBlockedDate startTime endTime index iv =
     (let timelineLength = differenceInMilliseconds endTime startTime;
          getConfig = getTimelineConfig startTime timelineLength;
          start0 = ival_start iv;
          end0 = ival_end iv;
          start1 = (if isBefore start0 startTime then startTime else start0);
          end1 = (if isAfter end0 endTime then endTime else end0);
          src = getConfig start1 ''blocked-start'';
          tgt = getConfig end1 ''blocked-end''
      in \<lparr>mi_id = ''blocked-track-'' @ decimal_digits index, source = src, target = tgt\<rparr>)"

text \<open>
  \<^verbatim>\<open>getFormattedBlockedIntervals(blockedDates = [], [startTime, endTime])\<close>: an absent
  argument (\<open>None\<close>) defaults to the empty list; the empty list gives \<^verbatim>\<open>null\<close> (\<open>None\<close>).
\<close>

definition getFormattedBlockedIntervals ::
  "interval list option \<Rightarrow> date \<times> date \<Rightarrow> mapped_interval list option" where
  "getFormattedBlockedIntervals blockedDatesArg window =
     (let blockedDates = (case blockedDatesArg of None \<Rightarrow> [] | Some bs \<Rightarrow> bs);
          startTime = fst window;
          endTime = snd window
      in if blockedDates = [] then None
         else Some (map (\<lambda>(index, iv). formattedBlockedDate startTime endTime index iv)
                        (enumerate 0 blockedDates)))"

section \<open>The now marker\<close>

text \<open>
  The wall clock: \<open>readings k\<close> is what the \<open>k\<close>-th reading of the clock returns, and
  \<open>samples\<close> counts the readings made so far. \<^verbatim>\<open>new Date()\<close> reads the clock.
\<close>

record clock =
  readings :: "nat \<Rightarrow> date"
  samples :: nat

definition new_Date :: "clock \<Rightarrow> date \<times> clock" where
  "new_Date c = (readings c (samples c), c\<lparr>samples := Suc (samples c)\<rparr>)"

text \<open>
  \<^verbatim>\<open>getNowConfig([startTime, endTime])\<close>: the source is built from one \<^verbatim>\<open>new Date()\<close>, the
  target from another.
\<close>

definition getNowConfig :: "date \<times> date \<Rightarrow> clock \<Rightarrow> mapped_interval \<times> clock" where
  "getNowConfig window c =
     (let startTime = fst window;
          endTime = snd window;
          timelineLength = differenceInMilliseconds endTime startTime;
          getConfig = getTimelineConfig startTime timelineLength;
          (d1, c1) = new_Date c;
          src = getConfig d1 ''now-start'';
          (d2, c2) = new_Date c1;
          tgt = getConfig (addMinutes d2 1) ''now-end''
      in (\<lparr>mi_id = ''now-track'', source = src, target = tgt\<rparr>, c2))"

text \<open>
  A clock that has not been read yet and whose consecutive readings are one millisecond
  apart, starting at epoch time 1000.
\<close>

definition ticking_clock :: clock where
  "ticking_clock = \<lparr>readings = (\<lambda>k. 1000 + int k), samples = 0\<rparr>"

section \<open>The update handler\<close>

text \<open>
  The properties of the component that the update handler reads. \<open>onUpdateCallback\<close> says
  whether the callback was supplied; the calls made to it are the handler's output.
\<close>

record props =
  disabledIntervals :: "interval list option"
  timelineInterval :: "date \<times> date"
  onUpdateCallback :: bool

text \<open>The getter \<^verbatim>\<open>get disabledIntervals()\<close> of the component.\<close>

definition get_disabledIntervals :: "props \<Rightarrow> mapped_interval list option" where
  "get_disabledIntervals p = getFormattedBlockedIntervals (disabledIntervals p) (timelineInterval p)"

text \<open>
  The call \<^verbatim>\<open>checkIsSelectedIntervalNotValid([newTime[0], newTime[1]], source, target)\<close>.
  An element missing from \<^verbatim>\<open>newTime\<close> is \<^verbatim>\<open>undefined\<close>; each condition of the check
  compares both \<open>start\<close> and \<open>end\<close>, and a comparison with \<^verbatim>\<open>undefined\<close> is false, so the
  check returns false then.
\<close>

definition check_newTime :: "int list \<Rightarrow> mapped_point \<Rightarrow> mapped_point \<Rightarrow> bool" where
  "check_newTime newTime src tgt =
     (case newTime of
        s # e # _ \<Rightarrow> checkIsSelectedIntervalNotValid (s, e) src tgt
      | _ \<Rightarrow> False)"

text \<open>
  \<^verbatim>\<open>onUpdate(newTime)\<close>; the result is the list of the objects passed to
  \<^verbatim>\<open>onUpdateCallback\<close>, in order.
\<close>

definition onUpdate :: "props \<Rightarrow> int list \<Rightarrow> update_callback_data list" where
  "onUpdate p newTime =
     (let ds = get_disabledIntervals p
      in if \<not> onUpdateCallback p then []
         else (case ds of
                 Some (m # ms) \<Rightarrow>
                   (let isValuesNotValid =
                          list_ex (\<lambda>mi. check_newTime newTime (source mi) (target mi)) (m # ms);
                        formattedNewTime = map new_Date_of newTime
                    in [\<lparr>error = isValuesNotValid, time = formattedNewTime\<rparr>])
               | _ \<Rightarrow>
                   (let formattedNewTime = map new_Date_of newTime
                    in [\<lparr>error = False, time = formattedNewTime\<rparr>])))"

section \<open>Facts about the helpers\<close>

lemma getTimelineConfig_value: "pt_value (getTimelineConfig s l d p) = d"
  by (simp add: getTimelineConfig_def format_T_def Let_def)

lemma getTimelineConfig_percent:
  "l \<noteq> 0 \<Longrightarrow> pt_percent (getTimelineConfig s l d p) = Fin (of_int (d - s) / of_int l * 100)"
  by (simp add: getTimelineConfig_def differenceInMilliseconds_def js_div_def Let_def)

lemma getFormattedBlockedIntervals_nth:
  assumes "getFormattedBlockedIntervals (Some bs) (s, e) = Some ms" and "i < length bs"
  shows "i < length ms \<and> ms ! i = formattedBlockedDate s e i (bs ! i)"
  using assms
  by (auto simp: getFormattedBlockedIntervals_def Let_def nth_enumerate_eq split: if_splits)

lemma source_value: "pt_value (source (formattedBlockedDate s e i b)) = max (ival_start b) s"
  by (simp add: formattedBlockedDate_def Let_def getTimelineConfig_value isBefore_def max_def)

lemma target_value: "pt_value (target (formattedBlockedDate s e i b)) = min (ival_end b) e"
  by (simp add: formattedBlockedDate_def Let_def getTimelineConfig_value isAfter_def min_def)

lemma source_percent:
  "s < e \<Longrightarrow> pt_percent (source (formattedBlockedDate s e i b)) =
     Fin (of_int (max (ival_start b) s - s) / of_int (e - s) * 100)"
  by (simp add: formattedBlockedDate_def Let_def getTimelineConfig_percent isBefore_def max_def
      differenceInMilliseconds_def)

lemma target_percent:
  "s < e \<Longrightarrow> pt_percent (target (formattedBlockedDate s e i b)) =
     Fin (of_int (min (ival_end b) e - s) / of_int (e - s) * 100)"
  by (simp add: formattedBlockedDate_def Let_def getTimelineConfig_percent isAfter_def min_def
      differenceInMilliseconds_def)

text \<open>
  The clipper returns a list for every list that is not empty, with one element for each
  blocked interval, in the order of the input.
\<close>

lemma getFormattedBlockedIntervals_emits:
  assumes "bs \<noteq> []"
  shows "getFormattedBlockedIntervals (Some bs) (s, e) =
     Some (map (\<lambda>(index, iv). formattedBlockedDate s e index iv) (enumerate 0 bs))"
  using assms by (simp add: getFormattedBlockedIntervals_def Let_def)

text \<open>
  The percent of a point \<open>x\<close> in a window of positive length: it is at least 0 for a point
  that is not before the window's start, and at most 100 for a point that is not after the
  window's end.
\<close>

lemma percent_nonneg:
  fixes x s e :: int
  assumes "s < e" and "s \<le> x"
  shows "(0::rat) \<le> of_int (x - s) / of_int (e - s) * 100"
  using assms by (simp add: zero_le_divide_iff)

lemma percent_nonpos:
  fixes x s e :: int
  assumes "s < e" and "x \<le> s"
  shows "(of_int (x - s) / of_int (e - s) * 100 :: rat) \<le> 0"
  using assms by (simp add: divide_le_0_iff mult_le_0_iff)

lemma percent_at_most_100:
  fixes x s e :: int
  assumes "s < e" and "x \<le> e"
  shows "(of_int (x - s) / of_int (e - s) * 100 :: rat) \<le> 100"
  using assms by (simp add: pos_divide_le_eq)

lemma percent_at_least_100:
  fixes x s e :: int
  assumes "s < e" and "e \<le> x"
  shows "(100::rat) \<le> of_int (x - s) / of_int (e - s) * 100"
  using assms by (simp add: pos_le_divide_eq)

lemma percent_of_window_end:
  fixes s e :: int
  assumes "s < e"
  shows "(of_int (e - s) / of_int (e - s) * 100 :: rat) = 100"
  using assms by simp

lemma source_percent_lower:
  assumes "s < e"
  shows "js_le (Fin 0) (pt_percent (source (formattedBlockedDate s e i b)))"
proof -
  have "(0::rat) \<le> of_int (max (ival_start b) s - s) / of_int (e - s) * 100"
    using assms by (intro percent_nonneg) simp_all
  then show ?thesis
    by (simp only: source_percent[OF assms] js_le.simps)
qed

lemma source_percent_upper:
  assumes "s < e" and "ival_start b \<le> e"
  shows "js_le (pt_percent (source (formattedBlockedDate s e i b))) (Fin 100)"
proof -
  have "(of_int (max (ival_start b) s - s) / of_int (e - s) * 100 :: rat) \<le> 100"
    using assms by (intro percent_at_most_100) simp_all
  then show ?thesis
    by (simp only: source_percent[OF assms(1)] js_le.simps)
qed

lemma target_percent_upper:
  assumes "s < e"
  shows "js_le (pt_percent (target (formattedBlockedDate s e i b))) (Fin 100)"
proof -
  have "(of_int (min (ival_end b) e - s) / of_int (e - s) * 100 :: rat) \<le> 100"
    using assms by (intro percent_at_most_100) simp_all
  then show ?thesis
    by (simp only: target_percent[OF assms] js_le.simps)
qed

lemma target_percent_lower:
  assumes "s < e" and "s \<le> ival_end b"
  shows "js_le (Fin 0) (pt_percent (target (formattedBlockedDate s e i b)))"
proof -
  have "(0::rat) \<le> of_int (min (ival_end b) e - s) / of_int (e - s) * 100"
    using assms by (intro percent_nonneg) simp_all
  then show ?thesis
    by (simp only: target_percent[OF assms(1)] js_le.simps)
qed

lemmas clip_eval = getFormattedBlockedIntervals_def formattedBlockedDate_def
  getTimelineConfig_def differenceInMilliseconds_def isBefore_def isAfter_def format_T_def
  js_div_def number_to_string_def digit_char_def Let_def enumerate_eq_zip

section \<open>The overlap check: claims C1, C6 and C10\<close>

text \<open>
  Claim C1. For every selection \<open>[start, end]\<close> and every blocked interval with mapped end
  point values \<open>blockedStart = source.value\<close> and \<open>blockedEnd = target.value\<close>,
  \<open>checkIsSelectedIntervalNotValid\<close> returns true if and only if at least one of the four
  conditions of the written description holds, and false otherwise. The order of the
  selection's end points is not needed for this.
\<close>

theorem checkIsSelectedIntervalNotValid_iff_conditions:
  "checkIsSelectedIntervalNotValid (start, end') src tgt =
     (spec_condition_1 start end' (pt_value src) (pt_value tgt) \<or>
      spec_condition_2 start end' (pt_value src) (pt_value tgt) \<or>
      spec_condition_3 start end' (pt_value src) (pt_value tgt) \<or>
      spec_condition_4 start end' (pt_value src) (pt_value tgt))"
  by (auto simp: checkIsSelectedIntervalNotValid_def spec_condition_1_def spec_condition_2_def
      spec_condition_3_def spec_condition_4_def Let_def)

text \<open>
  At the selection \<open>[30, 50]\<close> and the blocked interval \<open>[10, 40]\<close> only the third condition
  holds, and the check returns true.
\<close>

theorem checkIsSelectedIntervalNotValid_iff_conditions_witness:
  "checkIsSelectedIntervalNotValid (30, 50)
     \<lparr>pt_id = ''blocked-start-10'', pt_percent = Fin 10, pt_value = 10\<rparr>
     \<lparr>pt_id = ''blocked-end-40'', pt_percent = Fin 40, pt_value = 40\<rparr>
   \<and> \<not> spec_condition_1 30 50 10 40 \<and> \<not> spec_condition_2 30 50 10 40
   \<and> spec_condition_3 30 50 10 40 \<and> \<not> spec_condition_4 30 50 10 40"
  using checkIsSelectedIntervalNotValid_iff_conditions [of 30 50
      "\<lparr>pt_id = ''blocked-start-10'', pt_percent = Fin 10, pt_value = 10\<rparr>"
      "\<lparr>pt_id = ''blocked-end-40'', pt_percent = Fin 40, pt_value = 40\<rparr>"]
  by (simp add: spec_condition_1_def spec_condition_2_def spec_condition_3_def
      spec_condition_4_def)

text \<open>
  Claim C6. For every blocked interval \<open>[B1, B2]\<close> and every selection \<open>[S1, S2]\<close> with
  \<open>B1 \<le> S1 \<le> S2 \<le> B2\<close>, \<open>checkIsSelectedIntervalNotValid\<close> returns true.
\<close>

theorem contained_selection_is_invalid:
  assumes "pt_value src \<le> S1" and "S1 \<le> S2" and "S2 \<le> pt_value tgt"
  shows "checkIsSelectedIntervalNotValid (S1, S2) src tgt"
  using assms by (simp add: checkIsSelectedIntervalNotValid_def Let_def)

theorem contained_selection_is_invalid_witness:
  "(10::int) \<le> 20 \<and> (20::int) \<le> 30 \<and> (30::int) \<le> 40 \<and>
   checkIsSelectedIntervalNotValid (20, 30)
     \<lparr>pt_id = ''blocked-start-10'', pt_percent = Fin 10, pt_value = 10\<rparr>
     \<lparr>pt_id = ''blocked-end-40'', pt_percent = Fin 40, pt_value = 40\<rparr>"
  using contained_selection_is_invalid [of
      "\<lparr>pt_id = ''blocked-start-10'', pt_percent = Fin 10, pt_value = 10\<rparr>" 20 30
      "\<lparr>pt_id = ''blocked-end-40'', pt_percent = Fin 40, pt_value = 40\<rparr>"]
  by simp

text \<open>
  Claim C10. For every selection with \<open>start < end\<close> and every blocked interval with
  \<open>blockedStart < blockedEnd\<close>, a selection that only abuts the blocked interval (\<open>end =
  blockedStart\<close>, or \<open>start = blockedEnd\<close>) is reported valid: the check returns false.
\<close>

theorem abutting_selection_is_valid:
  assumes "start < end'" and "pt_value src < pt_value tgt"
    and "end' = pt_value src \<or> start = pt_value tgt"
  shows "\<not> checkIsSelectedIntervalNotValid (start, end') src tgt"
  using assms by (auto simp: checkIsSelectedIntervalNotValid_def Let_def)

text \<open>Both ways of abutting the blocked interval \<open>[10, 40]\<close>: \<open>[0, 10]\<close> and \<open>[40, 60]\<close>.\<close>

theorem abutting_selection_is_valid_witness:
  "(0::int) < 10 \<and> (10::int) < 40 \<and> (40::int) < 60 \<and>
   \<not> checkIsSelectedIntervalNotValid (0, 10)
       \<lparr>pt_id = ''blocked-start-10'', pt_percent = Fin 10, pt_value = 10\<rparr>
       \<lparr>pt_id = ''blocked-end-40'', pt_percent = Fin 40, pt_value = 40\<rparr> \<and>
   \<not> checkIsSelectedIntervalNotValid (40, 60)
       \<lparr>pt_id = ''blocked-start-10'', pt_percent = Fin 10, pt_value = 10\<rparr>
       \<lparr>pt_id = ''blocked-end-40'', pt_percent = Fin 40, pt_value = 40\<rparr>"
  using abutting_selection_is_valid [of 0 10
      "\<lparr>pt_id = ''blocked-start-10'', pt_percent = Fin 10, pt_value = 10\<rparr>"
      "\<lparr>pt_id = ''blocked-end-40'', pt_percent = Fin 40, pt_value = 40\<rparr>"]
    abutting_selection_is_valid [of 40 60
      "\<lparr>pt_id = ''blocked-start-10'', pt_percent = Fin 10, pt_value = 10\<rparr>"
      "\<lparr>pt_id = ''blocked-end-40'', pt_percent = Fin 40, pt_value = 40\<rparr>"]
  by simp

section \<open>The coordinate mapper: claims C9 and C5\<close>

text \<open>
  Claim C9. For every timeline of positive length and every pair of timestamps \<open>a < b\<close>, the
  mapper gives \<open>percent(a) < percent(b)\<close>, in exact rational arithmetic.
\<close>

theorem percent_strictly_monotone:
  assumes "0 < timelineLength" and "a < b"
  shows "js_less (pt_percent (getTimelineConfig timelineStart timelineLength a p))
                 (pt_percent (getTimelineConfig timelineStart timelineLength b q))"
proof -
  have "(of_int (a - timelineStart) :: rat) < of_int (b - timelineStart)"
    using assms(2) by simp
  then have "(of_int (a - timelineStart) / of_int timelineLength * 100 :: rat)
      < of_int (b - timelineStart) / of_int timelineLength * 100"
    using assms(1) by (simp add: divide_strict_right_mono)
  moreover have nz: "timelineLength \<noteq> 0"
    using assms(1) by simp
  ultimately show ?thesis
    by (simp only: getTimelineConfig_percent[OF nz] js_less.simps)
qed

theorem percent_strictly_monotone_witness:
  "(0::int) < 86400000 \<and> (3600000::int) < 7200000 \<and>
   js_less (pt_percent (getTimelineConfig 0 86400000 3600000 ''now-start''))
           (pt_percent (getTimelineConfig 0 86400000 7200000 ''now-end''))"
  using percent_strictly_monotone [of 86400000 3600000 7200000 0 "''now-start''" "''now-end''"]
  by simp

text \<open>
  Claim C5, as written: for every window whose length is not positive the mapper fails with
  \<open>DegenerateWindowError\<close> instead of returning a number. The mapper of the source has no
  such check. For the window \<open>[0, 0]\<close> and the point 5 the description asks for the error,
  and the source returns a point whose percent is \<open>Infinity\<close>; for the window \<open>[10, 0]\<close> it
  returns the percent 50.
\<close>

theorem degenerate_window_counterexample:
  "spec_map (0, 0) 5 ''p'' = Inl DegenerateWindowError \<and>
   getTimelineConfig 0 (differenceInMilliseconds 0 0) 5 ''p''
     = \<lparr>pt_id = ''p-5'', pt_percent = PosInf, pt_value = 5\<rparr> \<and>
   spec_map (10, 0) 5 ''p'' = Inl DegenerateWindowError \<and>
   getTimelineConfig 10 (differenceInMilliseconds 0 10) 5 ''p''
     = \<lparr>pt_id = ''p-5'', pt_percent = Fin 50, pt_value = 5\<rparr>"
  by (simp add: spec_map_def getTimelineConfig_def differenceInMilliseconds_def format_T_def
      js_div_def number_to_string_def digit_char_def Let_def)

text \<open>
  Claim C5, amended. The mapper never fails: for every window \<open>[s, e]\<close> and every point it
  returns a mapped point, whose value is the point's epoch time and whose id is the prefix,
  a dash and that value. When the length \<open>e - s\<close> is not zero the percent is
  \<open>(point - s) / (e - s) * 100\<close> (also for a negative length); when it is zero the percent is
  \<open>NaN\<close> for the point \<open>s\<close>, \<open>Infinity\<close> for a later point and \<open>-Infinity\<close> for an earlier
  one. For a window of positive length this is the result the description gives, and no
  error is raised.
\<close>

theorem getTimelineConfig_total:
  "getTimelineConfig s (differenceInMilliseconds e s) d p =
     \<lparr>pt_id = p @ ''-'' @ number_to_string d,
      pt_percent =
        (if e = s then (if d = s then NaN else if s < d then PosInf else NegInf)
         else Fin (of_int (d - s) / of_int (e - s) * 100)),
      pt_value = d\<rparr>
   \<and> spec_map (s, e) d p =
       (if e \<le> s then Inl DegenerateWindowError
        else Inr (getTimelineConfig s (differenceInMilliseconds e s) d p))"
  by (simp add: spec_map_def getTimelineConfig_def differenceInMilliseconds_def format_T_def
      js_div_def Let_def)

theorem getTimelineConfig_total_witness:
  "getTimelineConfig 0 (differenceInMilliseconds 86400000 0) 43200000 ''now-start'' =
     \<lparr>pt_id = ''now-start-43200000'', pt_percent = Fin 50, pt_value = 43200000\<rparr>
   \<and> spec_map (0, 86400000) 43200000 ''now-start'' =
       Inr (getTimelineConfig 0 (differenceInMilliseconds 86400000 0) 43200000 ''now-start'')"
  using getTimelineConfig_total [of 0 86400000 43200000 "''now-start''"]
  by (simp add: number_to_string_def digit_char_def)

section \<open>Blocked intervals: claims C2, C3 and C4\<close>

text \<open>
  Claim C2, as written: for every window with \<open>startTime < endTime\<close> and every blocked
  interval, also one lying entirely outside the window, both mapped percents lie in
  \<open>[0, 100]\<close>. Only the start is raised to the window's start and only the end is lowered
  to the window's end: for the window \<open>[0, 100]\<close> the interval \<open>[150, 200]\<close> keeps its start,
  and the source percent is 150.
\<close>

theorem clip_percent_counterexample:
  "getFormattedBlockedIntervals
     (Some [\<lparr>ival_id = ''a'', ival_start = 150, ival_end = 200\<rparr>]) (0, 100)
   = Some [\<lparr>mi_id = ''blocked-track-0'',
            source = \<lparr>pt_id = ''blocked-start-150'', pt_percent = Fin 150, pt_value = 150\<rparr>,
            target = \<lparr>pt_id = ''blocked-end-100'', pt_percent = Fin 100, pt_value = 100\<rparr>\<rparr>]
   \<and> \<not> js_le (Fin 150) (Fin 100)"
  by (simp add: clip_eval)

text \<open>
  Claim C2, amended. For every window with \<open>startTime < endTime\<close> and every blocked
  interval, the source percent is at least 0 and the target percent is at most 100; the
  source percent is at most 100 when the interval starts no later than the window ends, and
  the target percent is at least 0 when the interval ends no earlier than the window
  starts. So both percents lie in \<open>[0, 100]\<close> for every blocked interval that meets the
  window, also one that is partially outside it. Nothing is said of the other two bounds
  for an interval that does not meet the window. Each of these bounds compares the percent
  of a point with the percent of a window boundary on the same side of it, an order that
  rounding the subtraction, the division and the multiplication to the nearest double
  keeps.
\<close>

theorem clip_percent_bounds:
  assumes "startTime < endTime"
    and "getFormattedBlockedIntervals (Some bs) (startTime, endTime) = Some ms"
    and "i < length bs"
  shows "i < length ms
    \<and> js_le (Fin 0) (pt_percent (source (ms ! i)))
    \<and> js_le (pt_percent (target (ms ! i))) (Fin 100)
    \<and> (ival_start (bs ! i) \<le> endTime \<longrightarrow> js_le (pt_percent (source (ms ! i))) (Fin 100))
    \<and> (startTime \<le> ival_end (bs ! i) \<longrightarrow> js_le (Fin 0) (pt_percent (target (ms ! i))))"
  using getFormattedBlockedIntervals_nth[OF assms(2,3)] assms(1)
  by (simp add: source_percent_lower source_percent_upper target_percent_lower
      target_percent_upper)

text \<open>The interval \<open>[-50, 20]\<close>, partially outside the window \<open>[0, 100]\<close>: percents 0 and 20.\<close>

theorem clip_percent_bounds_witness:
  "(0::int) < 100 \<and> (- 50::int) \<le> 100 \<and> (0::int) \<le> 20
   \<and> getFormattedBlockedIntervals
       (Some [\<lparr>ival_id = ''a'', ival_start = - 50, ival_end = 20\<rparr>]) (0, 100)
     = Some [\<lparr>mi_id = ''blocked-track-0'',
              source = \<lparr>pt_id = ''blocked-start-0'', pt_percent = Fin 0, pt_value = 0\<rparr>,
              target = \<lparr>pt_id = ''blocked-end-20'', pt_percent = Fin 20, pt_value = 20\<rparr>\<rparr>]
   \<and> js_le (Fin 0) (Fin 0) \<and> js_le (Fin 0) (Fin 100)
   \<and> js_le (Fin 0) (Fin 20) \<and> js_le (Fin 20) (Fin 100)"
proof -
  have window: "(0::int) < 100"
    by simp
  have run: "getFormattedBlockedIntervals
       (Some [\<lparr>ival_id = ''a'', ival_start = - 50, ival_end = 20\<rparr>]) (0, 100)
     = Some [\<lparr>mi_id = ''blocked-track-0'',
              source = \<lparr>pt_id = ''blocked-start-0'', pt_percent = Fin 0, pt_value = 0\<rparr>,
              target = \<lparr>pt_id = ''blocked-end-20'', pt_percent = Fin 20, pt_value = 20\<rparr>\<rparr>]"
    by (simp add: clip_eval)
  show ?thesis
    using clip_percent_bounds [OF window run, of 0] run by simp
qed

text \<open>
  Claim C3, as written: every emitted interval has \<open>source.value \<le> target.value\<close>, for every
  blocked interval with \<open>start \<le> end\<close> and every window with \<open>start < end\<close>, also when the
  interval lies entirely outside the window. For the window \<open>[0, 100]\<close> the interval
  \<open>[-50, -20]\<close> gets the source value 0 and keeps the target value -20.
\<close>

theorem clip_order_counterexample:
  "(- 50::int) \<le> - 20 \<and> (0::int) < 100
   \<and> getFormattedBlockedIntervals
       (Some [\<lparr>ival_id = ''a'', ival_start = - 50, ival_end = - 20\<rparr>]) (0, 100)
     = Some [\<lparr>mi_id = ''blocked-track-0'',
              source = \<lparr>pt_id = ''blocked-start-0'', pt_percent = Fin 0, pt_value = 0\<rparr>,
              target = \<lparr>pt_id = ''blocked-end--20'', pt_percent = Fin (- 20),
                        pt_value = - 20\<rparr>\<rparr>]
   \<and> \<not> (0::int) \<le> - 20"
  by (simp add: clip_eval)

text \<open>
  Claim C3, amended. For every blocked interval with \<open>start \<le> end\<close> and every window with
  \<open>start < end\<close>, the emitted interval has \<open>source.value \<le> target.value\<close> exactly when the
  blocked interval meets the window (it starts no later than the window ends and ends no
  earlier than the window starts), which includes the intervals partially outside the
  window.
\<close>

theorem clip_order_iff_meets_window:
  assumes "startTime < endTime"
    and "getFormattedBlockedIntervals (Some bs) (startTime, endTime) = Some ms"
    and "i < length bs"
    and "ival_start (bs ! i) \<le> ival_end (bs ! i)"
  shows "i < length ms
    \<and> (pt_value (source (ms ! i)) \<le> pt_value (target (ms ! i)))
        = (ival_start (bs ! i) \<le> endTime \<and> startTime \<le> ival_end (bs ! i))"
  using getFormattedBlockedIntervals_nth[OF assms(2,3)] assms(1,4)
  by (auto simp: source_value target_value)

theorem clip_order_iff_meets_window_witness:
  "(0::int) < 100 \<and> (- 50::int) \<le> 20
   \<and> getFormattedBlockedIntervals
       (Some [\<lparr>ival_id = ''b'', ival_start = - 50, ival_end = 20\<rparr>]) (0, 100)
     = Some [\<lparr>mi_id = ''blocked-track-0'',
              source = \<lparr>pt_id = ''blocked-start-0'', pt_percent = Fin 0, pt_value = 0\<rparr>,
              target = \<lparr>pt_id = ''blocked-end-20'', pt_percent = Fin 20, pt_value = 20\<rparr>\<rparr>]
   \<and> (0::int) \<le> 20"
proof -
  have window: "(0::int) < 100"
    by simp
  have run: "getFormattedBlockedIntervals
       (Some [\<lparr>ival_id = ''b'', ival_start = - 50, ival_end = 20\<rparr>]) (0, 100)
     = Some [\<lparr>mi_id = ''blocked-track-0'',
              source = \<lparr>pt_id = ''blocked-start-0'', pt_percent = Fin 0, pt_value = 0\<rparr>,
              target = \<lparr>pt_id = ''blocked-end-20'', pt_percent = Fin 20, pt_value = 20\<rparr>\<rparr>]"
    by (simp add: clip_eval)
  show ?thesis
    using clip_order_iff_meets_window [OF window run, of 0] run by simp
qed

text \<open>
  Claim C4, as written: for every blocked interval lying entirely outside the window
  (\<open>end \<le> window.start\<close> or \<open>start \<ge> window.end\<close>) the emitted interval's source and target
  collapse to the same window boundary, both percents 0 or both 100. For the window
  \<open>[0, 100]\<close> the interval \<open>[-50, -20]\<close>, entirely before it, gets the percents 0 and -20.
\<close>

theorem outside_interval_counterexample:
  "(- 50::int) \<le> - 20 \<and> (- 20::int) \<le> 0 \<and> (0::int) < 100
   \<and> getFormattedBlockedIntervals
       (Some [\<lparr>ival_id = ''c'', ival_start = - 50, ival_end = - 20\<rparr>]) (0, 100)
     = Some [\<lparr>mi_id = ''blocked-track-0'',
              source = \<lparr>pt_id = ''blocked-start-0'', pt_percent = Fin 0, pt_value = 0\<rparr>,
              target = \<lparr>pt_id = ''blocked-end--20'', pt_percent = Fin (- 20),
                        pt_value = - 20\<rparr>\<rparr>]
   \<and> Fin (- 20) \<noteq> Fin 0 \<and> Fin (- 20) \<noteq> Fin 100"
  by (simp add: clip_eval)

text \<open>
  Claim C4, amended. For every blocked interval with \<open>start \<le> end\<close> lying entirely outside a
  window with \<open>start < end\<close>, the clipper still returns a list, with one interval for each
  blocked interval, and in the interval emitted for this one a single end point is on the
  window boundary: for an interval before the window the source is the window's start, at
  percent 0, while the target keeps the interval's own end, at a percent that is at most 0;
  for an interval after the window the target is the window's end, at percent 100, while
  the source keeps the interval's own start, at a percent that is at least 100. The values
  of source and target are the same exactly when the interval touches the window (\<open>end =
  window.start\<close>, or \<open>start = window.end\<close>), and then both percents are 0, or both are 100.
  The percents of an interval that does not touch the window are only bounded, since two
  different points of a very long window may round to the same percent.
\<close>

theorem outside_interval_one_sided:
  assumes "startTime < endTime"
    and "i < length bs"
    and "ival_start (bs ! i) \<le> ival_end (bs ! i)"
  shows "\<exists>ms. getFormattedBlockedIntervals (Some bs) (startTime, endTime) = Some ms
    \<and> length ms = length bs
    \<and> (ival_end (bs ! i) \<le> startTime \<longrightarrow>
          pt_value (source (ms ! i)) = startTime
        \<and> pt_percent (source (ms ! i)) = Fin 0
        \<and> pt_value (target (ms ! i)) = ival_end (bs ! i)
        \<and> js_le (pt_percent (target (ms ! i))) (Fin 0)
        \<and> (pt_value (source (ms ! i)) = pt_value (target (ms ! i)))
            = (ival_end (bs ! i) = startTime)
        \<and> (ival_end (bs ! i) = startTime \<longrightarrow> pt_percent (target (ms ! i)) = Fin 0))
    \<and> (endTime \<le> ival_start (bs ! i) \<longrightarrow>
          pt_value (target (ms ! i)) = endTime
        \<and> pt_percent (target (ms ! i)) = Fin 100
        \<and> pt_value (source (ms ! i)) = ival_start (bs ! i)
        \<and> js_le (Fin 100) (pt_percent (source (ms ! i)))
        \<and> (pt_value (source (ms ! i)) = pt_value (target (ms ! i)))
            = (ival_start (bs ! i) = endTime)
        \<and> (ival_start (bs ! i) = endTime \<longrightarrow> pt_percent (source (ms ! i)) = Fin 100))"
proof -
  let ?b = "bs ! i"
  let ?ms = "map (\<lambda>(index, iv). formattedBlockedDate startTime endTime index iv)
               (enumerate 0 bs)"
  have "bs \<noteq> []"
    using assms(2) by auto
  then have emitted: "getFormattedBlockedIntervals (Some bs) (startTime, endTime) = Some ?ms"
    by (rule getFormattedBlockedIntervals_emits)
  have len: "length ?ms = length bs"
    by simp
  have nth: "?ms ! i = formattedBlockedDate startTime endTime i ?b"
    using getFormattedBlockedIntervals_nth[OF emitted assms(2)] by simp
  have before: "pt_value (source (?ms ! i)) = startTime
        \<and> pt_percent (source (?ms ! i)) = Fin 0
        \<and> pt_value (target (?ms ! i)) = ival_end ?b
        \<and> js_le (pt_percent (target (?ms ! i))) (Fin 0)
        \<and> (pt_value (source (?ms ! i)) = pt_value (target (?ms ! i)))
            = (ival_end ?b = startTime)
        \<and> (ival_end ?b = startTime \<longrightarrow> pt_percent (target (?ms ! i)) = Fin 0)"
    if out: "ival_end ?b \<le> startTime"
  proof -
    have mx: "max (ival_start ?b) startTime = startTime"
      using out assms(3) by simp
    have mn: "min (ival_end ?b) endTime = ival_end ?b"
      using out assms(1) by simp
    have sv: "pt_value (source (?ms ! i)) = startTime"
      by (simp only: nth source_value mx)
    have tv: "pt_value (target (?ms ! i)) = ival_end ?b"
      by (simp only: nth target_value mn)
    have sp: "pt_percent (source (?ms ! i)) = Fin 0"
      by (simp only: nth source_percent[OF assms(1)] mx) simp
    have tp: "pt_percent (target (?ms ! i))
        = Fin (of_int (ival_end ?b - startTime) / of_int (endTime - startTime) * 100)"
      by (simp only: nth target_percent[OF assms(1)] mn)
    have tle: "js_le (pt_percent (target (?ms ! i))) (Fin 0)"
      using percent_nonpos[OF assms(1) out] by (simp only: tp js_le.simps)
    have tzero: "pt_percent (target (?ms ! i)) = Fin 0" if "ival_end ?b = startTime"
      using that by (simp add: tp)
    show ?thesis
      using sv tv sp tle tzero by auto
  qed
  have after: "pt_value (target (?ms ! i)) = endTime
        \<and> pt_percent (target (?ms ! i)) = Fin 100
        \<and> pt_value (source (?ms ! i)) = ival_start ?b
        \<and> js_le (Fin 100) (pt_percent (source (?ms ! i)))
        \<and> (pt_value (source (?ms ! i)) = pt_value (target (?ms ! i)))
            = (ival_start ?b = endTime)
        \<and> (ival_start ?b = endTime \<longrightarrow> pt_percent (source (?ms ! i)) = Fin 100)"
    if out: "endTime \<le> ival_start ?b"
  proof -
    have mx: "max (ival_start ?b) startTime = ival_start ?b"
      using out assms(1) by simp
    have mn: "min (ival_end ?b) endTime = endTime"
      using out assms(3) by simp
    have sv: "pt_value (source (?ms ! i)) = ival_start ?b"
      by (simp only: nth source_value mx)
    have tv: "pt_value (target (?ms ! i)) = endTime"
      by (simp only: nth target_value mn)
    have tp: "pt_percent (target (?ms ! i)) = Fin 100"
      by (simp only: nth target_percent[OF assms(1)] mn percent_of_window_end[OF assms(1)])
    have sp: "pt_percent (source (?ms ! i))
        = Fin (of_int (ival_start ?b - startTime) / of_int (endTime - startTime) * 100)"
      by (simp only: nth source_percent[OF assms(1)] mx)
    have sge: "js_le (Fin 100) (pt_percent (source (?ms ! i)))"
      using percent_at_least_100[OF assms(1) out] by (simp only: sp js_le.simps)
    have shundred: "pt_percent (source (?ms ! i)) = Fin 100" if "ival_start ?b = endTime"
      using that percent_of_window_end[OF assms(1)] by (simp only: sp)
    show ?thesis
      using sv tv tp sge shundred by auto
  qed
  show ?thesis
    using emitted len before after by blast
qed

text \<open>
  The window \<open>[0, 100]\<close> with four intervals outside it: \<open>[-50, -20]\<close> before it, \<open>[-30, 0]\<close>
  touching its start, \<open>[100, 130]\<close> touching its end and \<open>[150, 200]\<close> after it.
\<close>

theorem outside_interval_one_sided_witness:
  "(0::int) < 100 \<and> (- 50::int) \<le> - 20 \<and> (- 20::int) \<le> 0 \<and> (- 30::int) \<le> 0
   \<and> (100::int) \<le> 130 \<and> (150::int) \<le> 200 \<and> (100::int) \<le> 150
   \<and> getFormattedBlockedIntervals
       (Some [\<lparr>ival_id = ''c'', ival_start = - 50, ival_end = - 20\<rparr>,
              \<lparr>ival_id = ''d'', ival_start = - 30, ival_end = 0\<rparr>,
              \<lparr>ival_id = ''e'', ival_start = 100, ival_end = 130\<rparr>,
              \<lparr>ival_id = ''f'', ival_start = 150, ival_end = 200\<rparr>]) (0, 100)
     = Some [\<lparr>mi_id = ''blocked-track-0'',
              source = \<lparr>pt_id = ''blocked-start-0'', pt_percent = Fin 0, pt_value = 0\<rparr>,
              target = \<lparr>pt_id = ''blocked-end--20'', pt_percent = Fin (- 20),
                        pt_value = - 20\<rparr>\<rparr>,
             \<lparr>mi_id = ''blocked-track-1'',
              source = \<lparr>pt_id = ''blocked-start-0'', pt_percent = Fin 0, pt_value = 0\<rparr>,
              target = \<lparr>pt_id = ''blocked-end-0'', pt_percent = Fin 0, pt_value = 0\<rparr>\<rparr>,
             \<lparr>mi_id = ''blocked-track-2'',
              source = \<lparr>pt_id = ''blocked-start-100'', pt_percent = Fin 100, pt_value = 100\<rparr>,
              target = \<lparr>pt_id = ''blocked-end-100'', pt_percent = Fin 100, pt_value = 100\<rparr>\<rparr>,
             \<lparr>mi_id = ''blocked-track-3'',
              source = \<lparr>pt_id = ''blocked-start-150'', pt_percent = Fin 150, pt_value = 150\<rparr>,
              target = \<lparr>pt_id = ''blocked-end-100'', pt_percent = Fin 100, pt_value = 100\<rparr>\<rparr>]
   \<and> js_le (Fin (- 20)) (Fin 0) \<and> js_le (Fin 100) (Fin 150)"
  using outside_interval_one_sided [of 0 100 0
      "[\<lparr>ival_id = ''c'', ival_start = - 50, ival_end = - 20\<rparr>,
        \<lparr>ival_id = ''d'', ival_start = - 30, ival_end = 0\<rparr>,
        \<lparr>ival_id = ''e'', ival_start = 100, ival_end = 130\<rparr>,
        \<lparr>ival_id = ''f'', ival_start = 150, ival_end = 200\<rparr>]"]
    outside_interval_one_sided [of 0 100 1
      "[\<lparr>ival_id = ''c'', ival_start = - 50, ival_end = - 20\<rparr>,
        \<lparr>ival_id = ''d'', ival_start = - 30, ival_end = 0\<rparr>,
        \<lparr>ival_id = ''e'', ival_start = 100, ival_end = 130\<rparr>,
        \<lparr>ival_id = ''f'', ival_start = 150, ival_end = 200\<rparr>]"]
    outside_interval_one_sided [of 0 100 2
      "[\<lparr>ival_id = ''c'', ival_start = - 50, ival_end = - 20\<rparr>,
        \<lparr>ival_id = ''d'', ival_start = - 30, ival_end = 0\<rparr>,
        \<lparr>ival_id = ''e'', ival_start = 100, ival_end = 130\<rparr>,
        \<lparr>ival_id = ''f'', ival_start = 150, ival_end = 200\<rparr>]"]
    outside_interval_one_sided [of 0 100 3
      "[\<lparr>ival_id = ''c'', ival_start = - 50, ival_end = - 20\<rparr>,
        \<lparr>ival_id = ''d'', ival_start = - 30, ival_end = 0\<rparr>,
        \<lparr>ival_id = ''e'', ival_start = 100, ival_end = 130\<rparr>,
        \<lparr>ival_id = ''f'', ival_start = 150, ival_end = 200\<rparr>]"]
  by (simp add: clip_eval)

section \<open>The update handler: claim C7\<close>

text \<open>
  Claim C7. For every update event with the update callback supplied, when the list of
  blocked intervals is empty (or absent, which defaults to the empty list), the callback is
  called exactly once, with the error flag false and with the converted input timestamps.
\<close>

theorem onUpdate_without_blocked_intervals:
  assumes "onUpdateCallback p"
    and "disabledIntervals p = None \<or> disabledIntervals p = Some []"
  shows "onUpdate p newTime = [\<lparr>error = False, time = map new_Date_of newTime\<rparr>]"
  using assms
  by (auto simp: onUpdate_def get_disabledIntervals_def getFormattedBlockedIntervals_def Let_def)

theorem onUpdate_without_blocked_intervals_witness:
  "onUpdateCallback
     \<lparr>disabledIntervals = Some [], timelineInterval = (0, 86400000), onUpdateCallback = True\<rparr>
   \<and> onUpdate
       \<lparr>disabledIntervals = Some [], timelineInterval = (0, 86400000), onUpdateCallback = True\<rparr>
       [37800000, 38700000]
     = [\<lparr>error = False, time = [37800000, 38700000]\<rparr>]"
  using onUpdate_without_blocked_intervals [of
      "\<lparr>disabledIntervals = Some [], timelineInterval = (0, 86400000), onUpdateCallback = True\<rparr>"
      "[37800000, 38700000]"]
  by (simp add: new_Date_of_def)

section \<open>The now marker: claim C8\<close>

text \<open>
  Claim C8, as written: in every call of \<open>getNowConfig\<close> the clock is sampled exactly once,
  so the target's value is the source's value plus 60000. The function reads the clock
  twice. With a clock that advances by a millisecond between the two readings, starting at
  1000, the source's value is 1000 and the target's is 61001.
\<close>

theorem now_marker_counterexample:
  "samples ticking_clock = 0
   \<and> samples (snd (getNowConfig (0, 86400000) ticking_clock)) = 2
   \<and> pt_value (source (fst (getNowConfig (0, 86400000) ticking_clock))) = 1000
   \<and> pt_value (target (fst (getNowConfig (0, 86400000) ticking_clock))) = 61001
   \<and> (61001::int) \<noteq> 1000 + 60000"
  by (simp add: getNowConfig_def new_Date_def ticking_clock_def addMinutes_def
      getTimelineConfig_value Let_def)

text \<open>
  Claim C8, amended. In every call of \<open>getNowConfig\<close> the clock is sampled exactly twice: the
  source's value is the first reading, and the target's value is the second reading plus
  one minute (60000 milliseconds). So the target's value is the source's value plus 60000
  exactly when both readings are the same.
\<close>

theorem getNowConfig_samples_twice:
  "samples (snd (getNowConfig w c)) = samples c + 2
   \<and> readings (snd (getNowConfig w c)) = readings c
   \<and> mi_id (fst (getNowConfig w c)) = ''now-track''
   \<and> pt_value (source (fst (getNowConfig w c))) = readings c (samples c)
   \<and> pt_value (target (fst (getNowConfig w c))) = readings c (Suc (samples c)) + 60000
   \<and> (pt_value (target (fst (getNowConfig w c)))
        = pt_value (source (fst (getNowConfig w c))) + 60000)
       = (readings c (Suc (samples c)) = readings c (samples c))"
proof -
  let ?t1 = "readings c (samples c)"
  let ?t2 = "readings c (Suc (samples c))"
  let ?getConfig = "getTimelineConfig (fst w) (differenceInMilliseconds (snd w) (fst w))"
  have first: "new_Date c = (?t1, c\<lparr>samples := Suc (samples c)\<rparr>)"
    by (simp add: new_Date_def)
  have second: "new_Date (c\<lparr>samples := Suc (samples c)\<rparr>)
      = (?t2, c\<lparr>samples := Suc (Suc (samples c))\<rparr>)"
    by (simp add: new_Date_def)
  have run: "getNowConfig w c =
      (\<lparr>mi_id = ''now-track'',
        source = ?getConfig ?t1 ''now-start'',
        target = ?getConfig (addMinutes ?t2 1) ''now-end''\<rparr>,
       c\<lparr>samples := Suc (Suc (samples c))\<rparr>)"
    by (simp add: getNowConfig_def first second Let_def)
  have "addMinutes ?t2 1 = ?t2 + 60000"
    by (simp add: addMinutes_def)
  then show ?thesis
    by (simp add: run getTimelineConfig_value)
qed

text \<open>A clock that stands still at 43200000 between the two readings.\<close>

theorem getNowConfig_samples_twice_witness:
  "samples (snd (getNowConfig (0, 86400000) \<lparr>readings = (\<lambda>k. 43200000), samples = 0\<rparr>)) = 2
   \<and> pt_value (source (fst (getNowConfig (0, 86400000)
         \<lparr>readings = (\<lambda>k. 43200000), samples = 0\<rparr>))) = 43200000
   \<and> pt_value (target (fst (getNowConfig (0, 86400000)
         \<lparr>readings = (\<lambda>k. 43200000), samples = 0\<rparr>))) = 43260000"
  using getNowConfig_samples_twice [of "(0, 86400000)"
      "\<lparr>readings = (\<lambda>k. 43200000), samples = 0\<rparr>"]
  by simp

end
